theory Spec2Isabelle
  imports Complex_Main
begin

section \<open>mask\_maker: lasso capture and mask rasterization\<close>

text \<open>
  A shallow embedding of \<^verbatim>\<open>src/mask_maker.py\<close>: the rasterizer \<^verbatim>\<open>mask_create\<close>,
  the merge step \<^verbatim>\<open>combine_data_and_mask\<close> and the class \<^verbatim>\<open>LassoManager\<close>.

  Coordinates are exact rationals. The one place where the float arithmetic of numpy
  shows is a division by zero, which yields a non-finite float (\<^verbatim>\<open>nan\<close>, with a
  warning) and raises nothing: such a value is \<open>None\<close> below.
  Every exception of the source is a value of \<open>error\<close>.

  What exact arithmetic leaves out: in 64-bit floats the quotient from which
  \<^verbatim>\<open>np.arange\<close> takes its length is rounded, so a range can come out one value longer
  than computed here (on axes such as 0.0, 0.1, 0.2), and a sum can overflow to an
  infinity. The results below are about the arithmetic of the rationals and, with it,
  about every input on which the floats are exact, such as small integer axes.
\<close>

subsection \<open>Errors and library primitives\<close>

datatype error =
    EmptySequence       \<comment> \<open>ValueError: max() / min() arg is an empty sequence\<close>
  | ArangeLength        \<comment> \<open>ValueError: arange: cannot compute length\<close>
  | ReshapeSize         \<comment> \<open>ValueError: cannot reshape array of size n into shape (a, b)\<close>
  | ConflictingSizes    \<comment> \<open>ValueError: conflicting sizes for dimension\<close>
  | NoLassoAttribute    \<comment> \<open>AttributeError: 'LassoManager' object has no attribute 'lasso'\<close>
  | NotLockOwner        \<comment> \<open>ValueError: you do not own this lock\<close>
  | AlreadyLocked       \<comment> \<open>ValueError: already locked\<close>

type_synonym point = "rat \<times> rat"

text \<open>\<^verbatim>\<open>path.Path(verts)\<close>: the ordered vertices of one lasso.\<close>

datatype path = Path "point list"

text \<open>
  The arrays \<^verbatim>\<open>mask_create\<close> returns: the boolean array reshaped from the containment
  vectors, or the float array of \<^verbatim>\<open>np.zeros\<close>. Both carry their shape
  (rows, columns) and their cells in row-major order.
\<close>

datatype ndarray =
    BoolArray "nat \<times> nat" "bool list"
  | FloatArray "nat \<times> nat" "rat list"

fun shape :: "ndarray \<Rightarrow> nat \<times> nat" where
  "shape (BoolArray s _) = s"
| "shape (FloatArray s _) = s"

text \<open>The truth value of every cell, in row-major order (\<^verbatim>\<open>0.0\<close> is false).\<close>

fun truth :: "ndarray \<Rightarrow> bool list" where
  "truth (BoolArray _ bs) = bs"
| "truth (FloatArray _ fs) = map (\<lambda>f. f \<noteq> 0) fs"

text \<open>Python's builtin \<^verbatim>\<open>max\<close> and \<^verbatim>\<open>min\<close> over a one-dimensional array.\<close>

fun py_max :: "rat list \<Rightarrow> error + rat" where
  "py_max [] = Inl EmptySequence"
| "py_max (x # xs) = Inr (fold max xs x)"

fun py_min :: "rat list \<Rightarrow> error + rat" where
  "py_min [] = Inl EmptySequence"
| "py_min (x # xs) = Inr (fold min xs x)"

text \<open>
  \<^verbatim>\<open>a / n\<close> for a numpy float \<^verbatim>\<open>a\<close> and a Python int \<^verbatim>\<open>n\<close>: dividing by zero gives
  \<^verbatim>\<open>nan\<close> or an infinity, here \<open>None\<close>. Adding to a non-finite value stays non-finite.
\<close>

definition true_divide :: "rat \<Rightarrow> int \<Rightarrow> rat option" where
  "true_divide a n = (if n = 0 then None else Some (a / of_int n))"

definition float_add :: "rat \<Rightarrow> rat option \<Rightarrow> rat option" where
  "float_add a b = (case b of None \<Rightarrow> None | Some d \<Rightarrow> Some (a + d))"

text \<open>
  \<^verbatim>\<open>np.arange(start, stop, step)\<close>: the values \<open>start + i * step\<close> for
  \<open>i < ceil((stop - start) / step)\<close>. The length cannot be computed when the quotient
  is not a number: a non-finite bound or step, or a step of zero.
\<close>

definition np_arange :: "rat \<Rightarrow> rat option \<Rightarrow> rat option \<Rightarrow> error + rat list" where
  "np_arange start stop step =
     (case stop of None \<Rightarrow> Inl ArangeLength | Some b \<Rightarrow>
       (case step of None \<Rightarrow> Inl ArangeLength | Some d \<Rightarrow>
          if d = 0 then Inl ArangeLength
          else Inr (map (\<lambda>i. start + of_nat i * d) [0 ..< nat \<lceil>(b - start) / d\<rceil>])))"

text \<open>
  \<^verbatim>\<open>np.meshgrid(xa, ya)\<close> with the default \<^verbatim>\<open>xy\<close> indexing: two arrays of
  \<open>length ya\<close> rows and \<open>length xa\<close> columns; \<^verbatim>\<open>flatten\<close> reads an array row by row;
  \<^verbatim>\<open>np.vstack((x, y)).T\<close> pairs the two flat vectors.
\<close>

definition meshgrid :: "rat list \<Rightarrow> rat list \<Rightarrow> rat list list \<times> rat list list" where
  "meshgrid xa ya = (map (\<lambda>_. xa) ya, map (\<lambda>y. map (\<lambda>_. y) xa) ya)"

definition flatten :: "rat list list \<Rightarrow> rat list" where
  "flatten rows = concat rows"

definition vstack_T :: "rat list \<Rightarrow> rat list \<Rightarrow> point list" where
  "vstack_T x y = zip x y"

text \<open>
  \<^verbatim>\<open>p.contains_points(points)\<close> applies matplotlib's point-in-path test to every point.
  The test itself is a parameter \<open>cp\<close> of the model.
\<close>

definition contains_points :: "(path \<Rightarrow> point \<Rightarrow> bool) \<Rightarrow> path \<Rightarrow> point list \<Rightarrow> bool list" where
  "contains_points cp p pts = map (cp p) pts"

text \<open>\<^verbatim>\<open>+\<close> on two boolean arrays of numpy is the cellwise logical or.\<close>

definition bool_add :: "bool list \<Rightarrow> bool list \<Rightarrow> bool list" where
  "bool_add a b = map2 (\<or>) a b"

text \<open>
  \<^verbatim>\<open>v.reshape(a, b)\<close> raises unless the vector has \<open>a * b\<close> cells;
  \<^verbatim>\<open>np.zeros((a, b))\<close> is a float array.
\<close>

definition reshape :: "bool list \<Rightarrow> nat \<Rightarrow> nat \<Rightarrow> error + ndarray" where
  "reshape v a b = (if length v = a * b then Inr (BoolArray (a, b) v) else Inl ReshapeSize)"

definition zeros :: "nat \<Rightarrow> nat \<Rightarrow> ndarray" where
  "zeros a b = FloatArray (a, b) (replicate (a * b) 0)"

subsection \<open>The rasterizer\<close>

text \<open>
  Lines 124 to 131 of \<^verbatim>\<open>mask_create\<close>: the spacings, the two ranges and the canvas of
  sample points. \<open>xs\<close> and \<open>ys\<close> are the values of the two coordinates of the data
  array.
\<close>

definition points :: "rat list \<Rightarrow> rat list \<Rightarrow> error + point list" where
  "points xs ys =
     (let lenx = int (length xs); leny = int (length ys) in
      case py_max xs of Inl e \<Rightarrow> Inl e | Inr maxx \<Rightarrow>
     (case py_min xs of Inl e \<Rightarrow> Inl e | Inr minx \<Rightarrow>
     (let distx = true_divide (maxx - minx) (lenx - 1) in
      case py_max ys of Inl e \<Rightarrow> Inl e | Inr maxy \<Rightarrow>
     (case py_min ys of Inl e \<Rightarrow> Inl e | Inr miny \<Rightarrow>
     (let disty = true_divide (maxy - miny) (leny - 1) in
      case np_arange minx (float_add maxx distx) distx of Inl e \<Rightarrow> Inl e | Inr xa \<Rightarrow>
     (case np_arange miny (float_add maxy disty) disty of Inl e \<Rightarrow> Inl e | Inr ya \<Rightarrow>
     (let (x, y) = meshgrid xa ya in
      Inr (vstack_T (flatten x) (flatten y)))))))))"

text \<open>The loop of lines 145 to 147: \<^verbatim>\<open>while i < len(grids): full = full + grids[i]; i = i + 1\<close>.\<close>

function add_from :: "bool list list \<Rightarrow> nat \<Rightarrow> bool list \<Rightarrow> bool list" where
  "add_from grids i full =
     (if i < length grids then add_from grids (i + 1) (bool_add full (grids ! i)) else full)"
  by pat_completeness auto
termination
  by (relation "measure (\<lambda>(grids, i, full). length grids - i)") auto

text \<open>Lines 138 to 147: one grid is passed through, two are added, more are added in the loop.\<close>

definition full :: "bool list list \<Rightarrow> bool list" where
  "full grids =
     (if length grids = 1 then grids ! 0
      else if length grids = 2 then bool_add (grids ! 0) (grids ! 1)
      else add_from grids 2 (bool_add (grids ! 0) (grids ! 1)))"

text \<open>
  \<^verbatim>\<open>mask_create\<close>, lines 124 to 152. \<open>paths\<close> is \<^verbatim>\<open>lman.paths\<close>; the projection is
  not used by the source.
\<close>

definition mask_create ::
    "(path \<Rightarrow> point \<Rightarrow> bool) \<Rightarrow> rat list \<Rightarrow> rat list \<Rightarrow> path list \<Rightarrow> error + ndarray" where
  "mask_create cp xs ys paths =
     (case points xs ys of Inl e \<Rightarrow> Inl e | Inr pts \<Rightarrow>
      let grids = map (\<lambda>p. contains_points cp p pts) paths in
      if length grids > 0 then reshape (full grids) (length xs) (length ys)
      else Inr (zeros (length xs) (length ys)))"

text \<open>
  The elementwise logical or of two masks of one shape, and of two results of the
  rasterizer: an error of either operand is the error of the whole.
\<close>

definition logical_or :: "ndarray \<Rightarrow> ndarray \<Rightarrow> ndarray" where
  "logical_or a b = BoolArray (shape a) (map2 (\<or>) (truth a) (truth b))"

definition or_results :: "error + ndarray \<Rightarrow> error + ndarray \<Rightarrow> error + ndarray" where
  "or_results a b =
     (case a of Inl e \<Rightarrow> Inl e | Inr m \<Rightarrow>
       (case b of Inl e \<Rightarrow> Inl e | Inr n \<Rightarrow> Inr (logical_or m n)))"

subsection \<open>The point-in-path test\<close>

text \<open>
  \<^verbatim>\<open>Path.contains_points\<close> belongs to matplotlib, not to this repository. Where a
  concrete test is needed it is the crossing test matplotlib documents: a ray from the
  point in the direction of growing x, an edge counted when its ends lie on opposite
  sides of the ray's line (an end on the line counts as above) and the ray meets it, the
  path closed from its last vertex to its first, and the point inside when the count is
  odd. A path of fewer than three vertices contains no point.
\<close>

fun crosses :: "point \<Rightarrow> point \<times> point \<Rightarrow> bool" where
  "crosses (tx, ty) ((x0, y0), (x1, y1)) =
     (let yflag0 = (y0 \<ge> ty); yflag1 = (y1 \<ge> ty) in
      yflag0 \<noteq> yflag1 \<and>
      (((y1 - ty) * (x0 - x1) \<ge> (x1 - tx) * (y0 - y1)) = yflag1))"

fun edges :: "point list \<Rightarrow> (point \<times> point) list" where
  "edges [] = []"
| "edges (v # vs) = zip (v # vs) (vs @ [v])"

fun point_in_path :: "path \<Rightarrow> point \<Rightarrow> bool" where
  "point_in_path (Path vs) pt =
     (if length vs < 3 then False else odd (length (filter (crosses pt) (edges vs))))"

subsection \<open>The merge step\<close>

text \<open>
  A data array of xarray, as far as the merge reads it: its dimensions with their
  lengths, in order, and its cells.
\<close>

record data_array =
  dims :: "(string \<times> nat) list"
  cells :: "rat list"

text \<open>
  What the dictionary given to \<^verbatim>\<open>xarray.Dataset\<close> holds: a data array, or a pair of
  dimension names and an array.
\<close>

datatype variable = Field data_array | Labelled "string list" ndarray

fun var_dims :: "variable \<Rightarrow> (string \<times> nat) list" where
  "var_dims (Field a) = dims a"
| "var_dims (Labelled names m) = zip names [fst (shape m), snd (shape m)]"

record dataset =
  data_vars :: "(string \<times> variable) list"
  sizes :: "(string \<times> nat) list"

text \<open>
  \<^verbatim>\<open>xarray.Dataset\<close> belongs to xarray. Its constructor collects the length of every
  dimension over all variables and raises when one dimension has two lengths.
\<close>

fun calculate_dimensions ::
    "(string \<times> nat) list \<Rightarrow> (string \<times> nat) list \<Rightarrow> error + (string \<times> nat) list" where
  "calculate_dimensions acc [] = Inr acc"
| "calculate_dimensions acc ((d, n) # rest) =
     (case map_of acc d of
        None \<Rightarrow> calculate_dimensions (acc @ [(d, n)]) rest
      | Some m \<Rightarrow> if m = n then calculate_dimensions acc rest else Inl ConflictingSizes)"

definition Dataset :: "(string \<times> variable) list \<Rightarrow> error + dataset" where
  "Dataset vars =
     (case calculate_dimensions [] (concat (map (\<lambda>(name, v). var_dims v) vars)) of
        Inl e \<Rightarrow> Inl e
      | Inr sz \<Rightarrow> Inr \<lparr>data_vars = vars, sizes = sz\<rparr>)"

text \<open>\<^verbatim>\<open>combine_data_and_mask\<close>, line 175.\<close>

definition combine_data_and_mask ::
    "data_array \<Rightarrow> ndarray \<Rightarrow> string \<Rightarrow> string \<Rightarrow> error + dataset" where
  "combine_data_and_mask data_array mask_array xcoord ycoord =
     Dataset [(''data'', Field data_array), (''mask'', Labelled [ycoord, xcoord] mask_array)]"

subsection \<open>The capture session\<close>

text \<open>
  An axes object knows the canvas of its figure (\<^verbatim>\<open>ax.figure.canvas\<close>). A lasso is the
  widget \<^verbatim>\<open>Lasso(ax, xy, callback)\<close>; two lassos are told apart by their identity.
\<close>

record axes =
  axes_id :: nat
  figure_canvas :: nat

record lasso =
  lasso_id :: nat
  lasso_axes :: axes
  verts :: "point list"

text \<open>
  The objects the sessions share. \<open>LassoManager_paths\<close> is the list bound to the name
  \<^verbatim>\<open>paths\<close> in the body of the class (line 199): one list object, made when the class
  is. \<open>widgetlock\<close> gives the owner of the lock of each canvas, \<open>patches\<close> the
  outlines added to each axes, \<open>next_cid\<close> the next connection id of each canvas and
  \<open>next_id\<close> the identity of the next lasso.
\<close>

record store =
  LassoManager_paths :: "path list"
  widgetlock :: "nat \<Rightarrow> lasso option"
  patches :: "nat \<Rightarrow> path list"
  next_cid :: "nat \<Rightarrow> nat"
  next_id :: nat

text \<open>
  The attributes of one instance, as \<^verbatim>\<open>__init__\<close> and \<^verbatim>\<open>onpress\<close> assign them.
  \<open>lasso = None\<close> is the attribute \<^verbatim>\<open>self.lasso\<close> not being there.
\<close>

record 'd lasso_manager =
  axes :: axes
  canvas :: nat
  data :: "'d list"
  Nxy :: nat
  cid :: nat
  lasso :: "lasso option"

record event =
  inaxes :: "axes option"
  xdata :: rat
  ydata :: rat

text \<open>The store when the module has been loaded and nothing has been drawn.\<close>

definition module_loaded :: store where
  "module_loaded =
     \<lparr>LassoManager_paths = [], widgetlock = (\<lambda>c. None), patches = (\<lambda>a. []),
      next_cid = (\<lambda>c. 0), next_id = 0\<rparr>"

text \<open>
  \<^verbatim>\<open>__init__\<close>, lines 200 to 218. It assigns no \<^verbatim>\<open>paths\<close>. The connection id is
  the next one of the canvas (\<^verbatim>\<open>mpl_connect\<close>); the collection it adds is only drawn.
\<close>

definition init :: "store \<Rightarrow> axes \<Rightarrow> 'd list \<Rightarrow> store \<times> 'd lasso_manager" where
  "init st ax d =
     (st\<lparr>next_cid := (next_cid st)(figure_canvas ax := next_cid st (figure_canvas ax) + 1)\<rparr>,
      \<lparr>axes = ax, canvas = figure_canvas ax, data = d, Nxy = length d,
       cid = next_cid st (figure_canvas ax), lasso = None\<rparr>)"

text \<open>
  \<^verbatim>\<open>self.paths\<close>: the instance has no attribute of that name, so the lookup ends at the
  class.
\<close>

definition paths :: "store \<Rightarrow> 'd lasso_manager \<Rightarrow> path list" where
  "paths st self = LassoManager_paths st"

text \<open>
  \<^verbatim>\<open>callback\<close>, lines 220 to 231. The list is appended to in place and the patch added
  before the lock is released, so both stay when the release raises. The release
  raises only when another object holds the lock; a free lock is released without
  complaint. The result is the exception raised, if any, with the store and the
  instance as the call leaves them.

  \<open>vs\<close> is the vertex list the lasso hands over on release, which has more than two
  vertices. \<^verbatim>\<open>path.Path\<close> refuses an empty list before anything is appended; that call
  is never made by the lasso and is not part of the model.
\<close>

definition callback ::
    "store \<times> 'd lasso_manager \<Rightarrow> point list \<Rightarrow> error option \<times> store \<times> 'd lasso_manager" where
  "callback s vs =
     (let (st, self) = s;
          p = Path vs;
          st1 = st\<lparr>LassoManager_paths := LassoManager_paths st @ [p]\<rparr>;
          a = axes_id (axes self);
          st2 = st1\<lparr>patches := (patches st1)(a := patches st1 a @ [p])\<rparr>
      in case lasso self of
           None \<Rightarrow> (Some NoLassoAttribute, st2, self)
         | Some l \<Rightarrow>
             if widgetlock st2 (canvas self) \<noteq> None \<and> widgetlock st2 (canvas self) \<noteq> Some l
             then (Some NotLockOwner, st2, self)
             else (None, st2\<lparr>widgetlock := (widgetlock st2)(canvas self := None)\<rparr>,
                   self\<lparr>lasso := None\<rparr>))"

text \<open>
  \<^verbatim>\<open>onpress\<close>, lines 233 to 238. Taking a lock that is free cannot raise.
\<close>

definition onpress :: "store \<times> 'd lasso_manager \<Rightarrow> event \<Rightarrow> store \<times> 'd lasso_manager" where
  "onpress s ev =
     (let (st, self) = s in
      if widgetlock st (canvas self) \<noteq> None then (st, self)
      else case inaxes ev of
             None \<Rightarrow> (st, self)
           | Some ax \<Rightarrow>
               (let l = \<lparr>lasso_id = next_id st, lasso_axes = ax, verts = [(xdata ev, ydata ev)]\<rparr>
                in (st\<lparr>widgetlock := (widgetlock st)(canvas self := Some l),
                       next_id := next_id st + 1\<rparr>,
                    self\<lparr>lasso := Some l\<rparr>)))"

text \<open>
  The rasterizer as the source calls it, \<^verbatim>\<open>mask_create(data_array, proj, lman)\<close>: the
  polygons are not an argument of their own, they are read through the session handed
  in (\<^verbatim>\<open>for p in lman.paths\<close>, line 133), in the store as it is at the time of the call.
\<close>

definition mask_create_lman ::
    "(path \<Rightarrow> point \<Rightarrow> bool) \<Rightarrow> rat list \<Rightarrow> rat list \<Rightarrow> store \<Rightarrow> 'd lasso_manager
       \<Rightarrow> error + ndarray" where
  "mask_create_lman cp xs ys st lman = mask_create cp xs ys (paths st lman)"

section \<open>Properties\<close>

subsection \<open>The canvas of sample points\<close>

declare add_from.simps [simp del]

lemma py_max_Max: "v \<noteq> [] \<Longrightarrow> py_max v = Inr (Max (set v))"
proof (cases v)
  case (Cons a w)
  then show ?thesis using Max.set_eq_fold [of a w] by simp
qed simp

lemma py_min_Min: "v \<noteq> [] \<Longrightarrow> py_min v = Inr (Min (set v))"
proof (cases v)
  case (Cons a w)
  then show ?thesis using Min.set_eq_fold [of a w] by simp
qed simp

lemma quotient_plus_step:
  fixes a s :: rat
  assumes "s \<noteq> 0"
  shows "(a + s) / s = a / s + 1"
  using assms by (simp add: add_divide_distrib)

text \<open>
  One axis: with at least two coordinates and a positive extent, the range from the
  minimum to the maximum plus one spacing has as many values as the axis.
\<close>

lemma arange_axis:
  assumes n: "2 \<le> length v" and lt: "mn < mx"
  defines "d \<equiv> true_divide (mx - mn) (int (length v) - 1)"
  shows "\<exists>a. np_arange mn (float_add mx d) d = Inr a \<and> length a = length v"
proof -
  define k :: rat where "k = of_int (int (length v) - 1)"
  define s where "s = (mx - mn) / k"
  have k: "0 < k" using n by (simp add: k_def)
  have s: "0 < s" using k lt by (simp add: s_def)
  have d: "d = Some s" using n by (simp add: d_def true_divide_def s_def k_def)
  have "(mx + s - mn) / s = ((mx - mn) + s) / s" by (simp add: algebra_simps)
  also have "\<dots> = (mx - mn) / s + 1" using s by (simp add: quotient_plus_step)
  also have "(mx - mn) / s = k" using lt k by (simp add: s_def)
  finally have q: "(mx + s - mn) / s = of_int (int (length v))" by (simp add: k_def)
  have "nat \<lceil>(mx + s - mn) / s\<rceil> = length v"
    unfolding q by simp
  then show ?thesis using s
    by (simp add: d np_arange_def float_add_def)
qed

lemma length_flatten_meshgrid:
  "length (flatten (fst (meshgrid xa ya))) = length ya * length xa"
  "length (flatten (snd (meshgrid xa ya))) = length ya * length xa"
  by (induction ya) (simp_all add: flatten_def meshgrid_def)

lemma points_length:
  assumes "2 \<le> length xs" "2 \<le> length ys"
    and "Min (set xs) < Max (set xs)" "Min (set ys) < Max (set ys)"
  shows "\<exists>pts. points xs ys = Inr pts \<and> length pts = length xs * length ys"
proof -
  have nx: "xs \<noteq> []" and ny: "ys \<noteq> []" using assms by auto
  obtain xa where xa: "np_arange (Min (set xs))
      (float_add (Max (set xs)) (true_divide (Max (set xs) - Min (set xs)) (int (length xs) - 1)))
      (true_divide (Max (set xs) - Min (set xs)) (int (length xs) - 1)) = Inr xa"
      "length xa = length xs"
    using arange_axis [OF assms(1) assms(3)] by blast
  obtain ya where ya: "np_arange (Min (set ys))
      (float_add (Max (set ys)) (true_divide (Max (set ys) - Min (set ys)) (int (length ys) - 1)))
      (true_divide (Max (set ys) - Min (set ys)) (int (length ys) - 1)) = Inr ya"
      "length ya = length ys"
    using arange_axis [OF assms(2) assms(4)] by blast
  have "points xs ys = Inr (vstack_T (flatten (fst (meshgrid xa ya))) (flatten (snd (meshgrid xa ya))))"
    by (simp add: points_def py_max_Max py_min_Min nx ny xa ya Let_def split_beta)
  moreover have "length (vstack_T (flatten (fst (meshgrid xa ya))) (flatten (snd (meshgrid xa ya))))
      = length xs * length ys"
    by (simp add: vstack_T_def length_flatten_meshgrid xa ya mult.commute)
  ultimately show ?thesis by blast
qed

lemma np_arange_error: "np_arange a b c = Inl e \<Longrightarrow> e = ArangeLength"
  by (auto simp: np_arange_def split: option.splits if_splits)

lemma points_short_axis:
  assumes "length xs < 2 \<or> length ys < 2"
  shows "points xs ys = Inl EmptySequence \<or> points xs ys = Inl ArangeLength"
proof (cases xs)
  case Nil
  then show ?thesis by (simp add: points_def)
next
  case xs: (Cons a xr)
  show ?thesis
  proof (cases ys)
    case Nil
    with xs show ?thesis by (simp add: points_def)
  next
    case ys: (Cons b yr)
    show ?thesis
    proof (cases "xr = []")
      case True
      with xs ys show ?thesis
        by (simp add: points_def true_divide_def float_add_def np_arange_def)
    next
      case False
      with xs assms have "yr = []" by (cases xr) (auto simp: ys)
      with xs ys show ?thesis
        by (auto simp: points_def Let_def true_divide_def float_add_def
            split: sum.splits dest: np_arange_error)
           (simp_all add: np_arange_def)
    qed
  qed
qed

text \<open>The sixteen sample points of the four by four grid over 0, 1, 2, 3.\<close>

lemma points_four_by_four:
  "points [0, 1, 2, 3] [0, 1, 2, 3] =
     Inr [(0, 0), (1, 0), (2, 0), (3, 0), (0, 1), (1, 1), (2, 1), (3, 1),
          (0, 2), (1, 2), (2, 2), (3, 2), (0, 3), (1, 3), (2, 3), (3, 3)]"
  by (simp add: points_def true_divide_def float_add_def np_arange_def meshgrid_def
      flatten_def vstack_T_def upt_rec)

lemma points_three_by_two:
  "points [0, 1, 2] [0, 1] = Inr [(0, 0), (1, 0), (2, 0), (0, 1), (1, 1), (2, 1)]"
  by (simp add: points_def true_divide_def float_add_def np_arange_def meshgrid_def
      flatten_def vstack_T_def upt_rec)

subsection \<open>Combining the containment vectors\<close>

lemma bool_add_map: "bool_add (map f pts) (map g pts) = map (\<lambda>pt. f pt \<or> g pt) pts"
  by (induction pts) (simp_all add: bool_add_def)

lemma add_from_fold:
  "add_from grids i acc = fold (\<lambda>g a. bool_add a g) (drop i grids) acc"
proof (induction grids i acc rule: add_from.induct)
  case (1 grids i acc)
  show ?case
  proof (cases "i < length grids")
    case True
    then have d: "drop i grids = grids ! i # drop (Suc i) grids"
      by (simp add: Cons_nth_drop_Suc)
    have "add_from grids i acc = add_from grids (i + 1) (bool_add acc (grids ! i))"
      using True by (subst add_from.simps) simp
    also have "\<dots> = fold (\<lambda>g a. bool_add a g) (drop (i + 1) grids) (bool_add acc (grids ! i))"
      using 1 True by simp
    finally show ?thesis by (simp add: d)
  next
    case False
    then show ?thesis by (subst add_from.simps) simp
  qed
qed

lemma fold_bool_add_map:
  "fold (\<lambda>g a. bool_add a g) (map (\<lambda>p. map (cp p) pts) ps) (map f pts)
     = map (\<lambda>pt. f pt \<or> list_ex (\<lambda>p. cp p pt) ps) pts"
  by (induction ps arbitrary: f) (simp_all add: bool_add_map disj_assoc)

text \<open>
  Whatever branch the number of polygons selects, the combined vector is true exactly
  at the points that some polygon contains.
\<close>

lemma full_or:
  assumes "ps \<noteq> []"
  shows "full (map (\<lambda>p. contains_points cp p pts) ps)
     = map (\<lambda>pt. list_ex (\<lambda>p. cp p pt) ps) pts"
proof (cases ps)
  case Nil
  with assms show ?thesis by simp
next
  case c1: (Cons p qs)
  show ?thesis
  proof (cases qs)
    case Nil
    with c1 show ?thesis by (simp add: full_def contains_points_def)
  next
    case (Cons q rs)
    with c1 show ?thesis
      by (simp add: full_def contains_points_def add_from_fold bool_add_map
          fold_bool_add_map disj_assoc)
  qed
qed

lemma mask_create_nonempty:
  assumes "ps \<noteq> []"
  shows "mask_create cp xs ys ps =
     (case points xs ys of Inl e \<Rightarrow> Inl e
      | Inr pts \<Rightarrow> reshape (map (\<lambda>pt. list_ex (\<lambda>p. cp p pt) ps) pts) (length xs) (length ys))"
  using assms by (simp add: mask_create_def full_or Let_def split: sum.splits)

lemma mask_create_empty:
  "mask_create cp xs ys [] =
     (case points xs ys of Inl e \<Rightarrow> Inl e | Inr pts \<Rightarrow> Inr (zeros (length xs) (length ys)))"
  by (simp add: mask_create_def split: sum.splits)

text \<open>Whenever the rasterizer returns, the x axis gives the number of rows.\<close>

lemma mask_create_shape:
  assumes "mask_create cp xs ys ps = Inr m"
  shows "shape m = (length xs, length ys)"
proof (cases "ps = []")
  case True
  with assms show ?thesis
    by (auto simp: mask_create_empty zeros_def split: sum.splits)
next
  case False
  with assms show ?thesis
    by (auto simp: mask_create_nonempty reshape_def split: sum.splits if_splits)
qed

subsection \<open>Shape of the mask\<close>

text \<open>
  Claim C1 says that the mask has the shape (len(y\_axis), len(x\_axis)). On the axes
  0, 1, 2 and 0, 1 the source's \<^verbatim>\<open>full.reshape(len(xs), len(ys))\<close> gives three rows of
  two cells for every containment test and every non-empty list of polygons, where
  the claim asks for two rows of three.
\<close>

theorem mask_create_three_by_two:
  "\<exists>c. mask_create cp [0, 1, 2] [0, 1] (p # ps) = Inr (BoolArray (3, 2) c)"
  by (simp add: mask_create_nonempty points_three_by_two reshape_def)

text \<open>
  The merge step labels the rows of the mask with the y axis, so it refuses that mask
  for a field of two rows and three columns.
\<close>

lemma combine_refuses_three_by_two:
  "combine_data_and_mask \<lparr>dims = [(''y'', 2), (''x'', 3)], cells = [1, 2, 3, 4, 5, 6]\<rparr>
     (BoolArray (3, 2) c) ''x'' ''y'' = Inl ConflictingSizes"
  by (simp add: combine_data_and_mask_def Dataset_def)

text \<open>
  Claim C2 says that an empty list of polygons gives an all-false mask of the shape
  (len(y\_axis), len(x\_axis)). On the axes 0, 1, 2 and 0, 1 the source's
  \<^verbatim>\<open>np.zeros((len(xs), len(ys)))\<close> is a float array of three rows of two zeros.
\<close>

theorem mask_create_no_polygons_three_by_two:
  "mask_create cp [0, 1, 2] [0, 1] [] = Inr (FloatArray (3, 2) [0, 0, 0, 0, 0, 0])"
  by (simp add: mask_create_empty points_three_by_two zeros_def numeral_eq_Suc)

subsection \<open>Union of the polygons\<close>

text \<open>
  Claim C3: the mask of two polygons is the elementwise logical or of the masks of
  each alone, and the mask of a non-empty list of polygons is, cell by cell, the or of
  the containment vectors of its polygons. Both hold for every pair of axes; where the
  canvas or the reshape raises, it raises the same error in all three calls.
\<close>

theorem mask_create_union:
  "mask_create cp xs ys [P1, P2] =
     or_results (mask_create cp xs ys [P1]) (mask_create cp xs ys [P2])
   \<and> (ps \<noteq> [] \<longrightarrow>
        mask_create cp xs ys ps =
          (case points xs ys of Inl e \<Rightarrow> Inl e
           | Inr pts \<Rightarrow>
               reshape (map (\<lambda>pt. list_ex (\<lambda>p. cp p pt) ps) pts) (length xs) (length ys)))"
proof
  show "mask_create cp xs ys [P1, P2] =
      or_results (mask_create cp xs ys [P1]) (mask_create cp xs ys [P2])"
  proof (cases "points xs ys")
    case (Inl e)
    then show ?thesis by (simp add: mask_create_nonempty or_results_def)
  next
    case (Inr pts)
    have "map2 (\<or>) (map (cp P1) pts) (map (cp P2) pts) = map (\<lambda>pt. cp P1 pt \<or> cp P2 pt) pts"
      using bool_add_map [of "cp P1" pts "cp P2"] by (simp add: bool_add_def)
    with Inr show ?thesis
      by (simp add: mask_create_nonempty or_results_def reshape_def logical_or_def)
  qed
next
  show "ps \<noteq> [] \<longrightarrow>
        mask_create cp xs ys ps =
          (case points xs ys of Inl e \<Rightarrow> Inl e
           | Inr pts \<Rightarrow>
               reshape (map (\<lambda>pt. list_ex (\<lambda>p. cp p pt) ps) pts) (length xs) (length ys))"
    by (simp add: mask_create_nonempty)
qed

theorem mask_create_union_witness:
  "mask_create point_in_path [0, 1, 2, 3] [0, 1, 2, 3]
      [Path [(1/2, 1/2), (3/2, 1/2), (3/2, 3/2), (1/2, 3/2)],
       Path [(3/2, 3/2), (5/2, 3/2), (5/2, 5/2), (3/2, 5/2)]] =
     or_results
      (mask_create point_in_path [0, 1, 2, 3] [0, 1, 2, 3]
        [Path [(1/2, 1/2), (3/2, 1/2), (3/2, 3/2), (1/2, 3/2)]])
      (mask_create point_in_path [0, 1, 2, 3] [0, 1, 2, 3]
        [Path [(3/2, 3/2), (5/2, 3/2), (5/2, 5/2), (3/2, 5/2)]])
   \<and> [Path [(1/2, 1/2), (3/2, 1/2), (3/2, 3/2), (1/2, 3/2)],
        Path [(3/2, 3/2), (5/2, 3/2), (5/2, 5/2), (3/2, 5/2)],
        Path [(5/2, -1/2), (7/2, -1/2), (7/2, 1/2), (5/2, 1/2)]] \<noteq> []
   \<and> mask_create point_in_path [0, 1, 2, 3] [0, 1, 2, 3]
      [Path [(1/2, 1/2), (3/2, 1/2), (3/2, 3/2), (1/2, 3/2)],
       Path [(3/2, 3/2), (5/2, 3/2), (5/2, 5/2), (3/2, 5/2)],
       Path [(5/2, -1/2), (7/2, -1/2), (7/2, 1/2), (5/2, 1/2)]] =
     Inr (BoolArray (4, 4)
           [False, False, False, True,
            False, True, False, False,
            False, False, True, False,
            False, False, False, False])"
  using mask_create_union [of point_in_path "[0, 1, 2, 3]" "[0, 1, 2, 3]"
      "Path [(1/2, 1/2), (3/2, 1/2), (3/2, 3/2), (1/2, 3/2)]"
      "Path [(3/2, 3/2), (5/2, 3/2), (5/2, 5/2), (3/2, 5/2)]"
      "[Path [(1/2, 1/2), (3/2, 1/2), (3/2, 3/2), (1/2, 3/2)],
        Path [(3/2, 3/2), (5/2, 3/2), (5/2, 5/2), (3/2, 5/2)],
        Path [(5/2, -1/2), (7/2, -1/2), (7/2, 1/2), (5/2, 1/2)]]"]
  by (simp add: points_four_by_four reshape_def)

subsection \<open>The unit square\<close>

text \<open>
  Claim C4: over the axes 0, 1, 2, 3 the square with corners (0.5, 0.5), (1.5, 0.5),
  (1.5, 1.5), (0.5, 1.5) gives a mask of four rows of four cells that is true at row 1,
  column 1 (the sample point (1, 1)) and false everywhere else. No sample point lies
  on an edge of the square, so the convention of the crossing test on edges plays no
  part.
\<close>

theorem mask_create_unit_square:
  "mask_create point_in_path [0, 1, 2, 3] [0, 1, 2, 3]
      [Path [(1/2, 1/2), (3/2, 1/2), (3/2, 3/2), (1/2, 3/2)]] =
     Inr (BoolArray (4, 4)
           [False, False, False, False,
            False, True, False, False,
            False, False, False, False,
            False, False, False, False])"
  by (simp add: mask_create_def points_four_by_four contains_points_def full_def reshape_def)

subsection \<open>Degenerate axes\<close>

text \<open>
  Claim C5: when the x axis or the y axis has fewer than two coordinates, the call
  raises. An empty axis fails in \<^verbatim>\<open>max\<close>; an axis of one coordinate has the spacing
  0 / 0, and \<^verbatim>\<open>np.arange\<close> cannot compute a length from it. Either is raised before
  any polygon is read.
\<close>

theorem mask_create_short_axis:
  assumes "length xs < 2 \<or> length ys < 2"
  shows "mask_create cp xs ys ps = Inl EmptySequence \<or> mask_create cp xs ys ps = Inl ArangeLength"
  using points_short_axis [OF assms] by (auto simp: mask_create_def)

theorem mask_create_short_axis_witness:
  "(length [5::rat] < 2 \<or> length [0, 1::rat] < 2)
   \<and> mask_create point_in_path [5] [0, 1] [] = Inl ArangeLength
   \<and> (length [0, 1::rat] < 2 \<or> length ([]::rat list) < 2)
   \<and> mask_create point_in_path [0, 1] [] [] = Inl EmptySequence"
  using mask_create_short_axis [of "[5]" "[0, 1]" point_in_path "[]"]
    mask_create_short_axis [of "[0, 1]" "[]" point_in_path "[]"]
  by (simp add: mask_create_def points_def true_divide_def float_add_def np_arange_def)

subsection \<open>The canvas has one point per cell\<close>

text \<open>
  Claim C10 says that for every pair of axes of length at least two the canvas has
  len(x\_axis) * len(y\_axis) points. An axis whose coordinates are all equal has
  the spacing zero, and \<^verbatim>\<open>np.arange\<close> with a step of zero raises: there is no canvas.
\<close>

theorem points_constant_axis_counterexample:
  "2 \<le> length [5, 5::rat] \<and> 2 \<le> length [0, 1::rat]
   \<and> \<not> (\<exists>pts. points [5, 5] [0, 1] = Inr pts \<and> length pts = length [5, 5::rat] * length [0, 1::rat])"
  by (simp add: points_def true_divide_def float_add_def np_arange_def)

text \<open>
  Claim C10 as amended: for every pair of axes of length at least two, each with a
  minimum below its maximum, the canvas has len(x\_axis) * len(y\_axis) points in
  exact arithmetic, so every vector computed point by point from it reshapes to
  len(x\_axis) rows of len(y\_axis) cells, as the source asks.
\<close>

theorem points_count:
  assumes "2 \<le> length xs" and "2 \<le> length ys"
    and "Min (set xs) < Max (set xs)" and "Min (set ys) < Max (set ys)"
  shows "\<exists>pts. points xs ys = Inr pts \<and> length pts = length xs * length ys
           \<and> reshape (map f pts) (length xs) (length ys)
               = Inr (BoolArray (length xs, length ys) (map f pts))"
proof -
  obtain pts where "points xs ys = Inr pts" "length pts = length xs * length ys"
    using points_length [OF assms] by blast
  then show ?thesis by (simp add: reshape_def)
qed

theorem points_count_witness:
  "2 \<le> length [0, 1, 2::rat] \<and> 2 \<le> length [0, 1::rat]
   \<and> Min (set [0, 1, 2::rat]) < Max (set [0, 1, 2::rat])
   \<and> Min (set [0, 1::rat]) < Max (set [0, 1::rat])
   \<and> (\<exists>pts. points [0, 1, 2] [0, 1] = Inr pts \<and> length pts = 6)"
  using points_count [of "[0, 1, 2]" "[0, 1]" "\<lambda>_. True"] by auto

subsection \<open>The merge step\<close>

lemma calculate_dimensions_distinct:
  "distinct (map fst (acc @ ds)) \<Longrightarrow> calculate_dimensions acc ds = Inr (acc @ ds)"
proof (induction ds arbitrary: acc)
  case Nil
  then show ?case by simp
next
  case (Cons dn ds)
  obtain d n where dn: "dn = (d, n)" by (cases dn)
  from Cons.prems have "d \<notin> fst ` set acc" by (auto simp: dn)
  then have none: "map_of acc d = None" by (simp add: map_of_eq_None_iff)
  from Cons.prems have "distinct (map fst ((acc @ [(d, n)]) @ ds))" by (simp add: dn)
  then have "calculate_dimensions (acc @ [(d, n)]) ds = Inr ((acc @ [(d, n)]) @ ds)"
    by (rule Cons.IH)
  with none show ?case by (simp add: dn)
qed

lemma calculate_dimensions_append:
  "calculate_dimensions acc (ds @ es) =
     (case calculate_dimensions acc ds of Inl e \<Rightarrow> Inl e | Inr a \<Rightarrow> calculate_dimensions a es)"
  by (induction acc ds rule: calculate_dimensions.induct) (simp_all split: option.splits)

text \<open>
  Claim C8: the merge fails whenever the shape of the mask is not
  (len(y\_axis), len(x\_axis)) of the field's own grid, and otherwise returns the bundle
  of the unchanged field and the mask under the given axis names. The axis names are
  two dimensions of the field, of lengths \<open>ny\<close> and \<open>nx\<close>; the check is the one the
  constructor of \<^verbatim>\<open>xarray.Dataset\<close> makes.
\<close>

theorem combine_data_and_mask_shape:
  assumes "distinct (map fst (dims da))"
    and "map_of (dims da) ycoord = Some ny"
    and "map_of (dims da) xcoord = Some nx"
  shows "combine_data_and_mask da m xcoord ycoord =
     (if shape m = (ny, nx)
      then Inr \<lparr>data_vars = [(''data'', Field da), (''mask'', Labelled [ycoord, xcoord] m)],
                sizes = dims da\<rparr>
      else Inl ConflictingSizes)"
proof -
  obtain a b where ab: "shape m = (a, b)" by (cases "shape m")
  have own: "calculate_dimensions [] (dims da) = Inr (dims da)"
    using calculate_dimensions_distinct [of "[]" "dims da"] assms(1) by simp
  have "calculate_dimensions [] (dims da @ [(ycoord, a), (xcoord, b)]) =
      calculate_dimensions (dims da) [(ycoord, a), (xcoord, b)]"
    by (simp add: calculate_dimensions_append own)
  also have "\<dots> = (if (a, b) = (ny, nx) then Inr (dims da) else Inl ConflictingSizes)"
    using assms(2,3) by auto
  finally show ?thesis
    by (simp add: combine_data_and_mask_def Dataset_def ab)
qed

theorem combine_data_and_mask_shape_witness:
  "distinct (map fst [(''y'', 2::nat), (''x'', 3)])
   \<and> map_of [(''y'', 2::nat), (''x'', 3)] ''y'' = Some 2
   \<and> map_of [(''y'', 2::nat), (''x'', 3)] ''x'' = Some 3
   \<and> combine_data_and_mask \<lparr>dims = [(''y'', 2), (''x'', 3)], cells = [1, 2, 3, 4, 5, 6]\<rparr>
        (BoolArray (2, 3) [False, True, False, False, True, False]) ''x'' ''y''
      = Inr \<lparr>data_vars =
               [(''data'', Field \<lparr>dims = [(''y'', 2), (''x'', 3)], cells = [1, 2, 3, 4, 5, 6]\<rparr>),
                (''mask'', Labelled [''y'', ''x''] (BoolArray (2, 3) [False, True, False, False, True, False]))],
             sizes = [(''y'', 2), (''x'', 3)]\<rparr>
   \<and> combine_data_and_mask \<lparr>dims = [(''y'', 2), (''x'', 3)], cells = [1, 2, 3, 4, 5, 6]\<rparr>
        (BoolArray (2, 2) [False, True, False, False]) ''x'' ''y''
      = Inl ConflictingSizes"
  using combine_data_and_mask_shape
      [of "\<lparr>dims = [(''y'', 2), (''x'', 3)], cells = [1, 2, 3, 4, 5, 6]\<rparr>" "''y''" 2 "''x''" 3
        "BoolArray (2, 3) [False, True, False, False, True, False]"]
    combine_data_and_mask_shape
      [of "\<lparr>dims = [(''y'', 2), (''x'', 3)], cells = [1, 2, 3, 4, 5, 6]\<rparr>" "''y''" 2 "''x''" 3
        "BoolArray (2, 2) [False, True, False, False]"]
  by simp

subsection \<open>The capture session\<close>

text \<open>
  Claim C9: a press that arrives while the lock of the canvas is held, or that carries
  no axes (it fell outside the plotted axes), leaves the store and the session as they
  were: no lasso is made, the lock is not taken, the polygons are untouched.
\<close>

theorem onpress_ignored:
  assumes "widgetlock st (canvas self) \<noteq> None \<or> inaxes ev = None"
  shows "onpress (st, self) ev = (st, self)"
  using assms by (auto simp: onpress_def)

theorem onpress_ignored_witness:
  "inaxes \<lparr>inaxes = None, xdata = 0, ydata = 0\<rparr> = None
   \<and> onpress (module_loaded, snd (init module_loaded \<lparr>axes_id = 0, figure_canvas = 0\<rparr> ([]::nat list)))
        \<lparr>inaxes = None, xdata = 0, ydata = 0\<rparr>
      = (module_loaded, snd (init module_loaded \<lparr>axes_id = 0, figure_canvas = 0\<rparr> ([]::nat list)))
   \<and> widgetlock
        (module_loaded\<lparr>widgetlock := (\<lambda>c. Some \<lparr>lasso_id = 5, lasso_axes = \<lparr>axes_id = 0, figure_canvas = 0\<rparr>, verts = [(1, 1)]\<rparr>)\<rparr>)
        (canvas (snd (init module_loaded \<lparr>axes_id = 0, figure_canvas = 0\<rparr> ([]::nat list))))
      = Some \<lparr>lasso_id = 5, lasso_axes = \<lparr>axes_id = 0, figure_canvas = 0\<rparr>, verts = [(1, 1)]\<rparr>
   \<and> onpress
        (module_loaded\<lparr>widgetlock := (\<lambda>c. Some \<lparr>lasso_id = 5, lasso_axes = \<lparr>axes_id = 0, figure_canvas = 0\<rparr>, verts = [(1, 1)]\<rparr>)\<rparr>,
         snd (init module_loaded \<lparr>axes_id = 0, figure_canvas = 0\<rparr> ([]::nat list)))
        \<lparr>inaxes = Some \<lparr>axes_id = 0, figure_canvas = 0\<rparr>, xdata = 2, ydata = 2\<rparr>
      = (module_loaded\<lparr>widgetlock := (\<lambda>c. Some \<lparr>lasso_id = 5, lasso_axes = \<lparr>axes_id = 0, figure_canvas = 0\<rparr>, verts = [(1, 1)]\<rparr>)\<rparr>,
         snd (init module_loaded \<lparr>axes_id = 0, figure_canvas = 0\<rparr> ([]::nat list)))"
  using onpress_ignored [of module_loaded
      "snd (init module_loaded \<lparr>axes_id = 0, figure_canvas = 0\<rparr> ([]::nat list))"
      "\<lparr>inaxes = None, xdata = 0, ydata = 0\<rparr>"]
    onpress_ignored [of
      "module_loaded\<lparr>widgetlock := (\<lambda>c. Some \<lparr>lasso_id = 5, lasso_axes = \<lparr>axes_id = 0, figure_canvas = 0\<rparr>, verts = [(1, 1)]\<rparr>)\<rparr>"
      "snd (init module_loaded \<lparr>axes_id = 0, figure_canvas = 0\<rparr> ([]::nat list))"
      "\<lparr>inaxes = Some \<lparr>axes_id = 0, figure_canvas = 0\<rparr>, xdata = 2, ydata = 2\<rparr>"]
  by simp

text \<open>A press inside the axes with the lock free does start a gesture and take the lock.\<close>

lemma onpress_starts:
  assumes "widgetlock st (canvas self) = None" and "inaxes ev = Some ax"
  shows "lasso (snd (onpress (st, self) ev)) \<noteq> None"
    and "widgetlock (fst (onpress (st, self) ev)) (canvas self) = lasso (snd (onpress (st, self) ev))"
    and "paths (fst (onpress (st, self) ev)) self = paths st self"
  using assms by (simp_all add: onpress_def paths_def Let_def)

text \<open>
  Claim C6 says that every session owns its own, freshly made, empty list of polygons.
  In the source the list belongs to the class: two sessions are made on two figures,
  a gesture is completed in the first with any vertices \<open>vs\<close>, and the second, which
  received no event, holds the new polygon.
\<close>

theorem paths_shared_between_sessions:
  "(let (st1, a) = init module_loaded \<lparr>axes_id = 0, figure_canvas = 0\<rparr> ([]::nat list);
        (st2, b) = init st1 \<lparr>axes_id = 1, figure_canvas = 1\<rparr> ([]::nat list);
        pressed = onpress (st2, a) \<lparr>inaxes = Some \<lparr>axes_id = 0, figure_canvas = 0\<rparr>, xdata = 0, ydata = 0\<rparr>;
        (raised, st3, a') = callback pressed vs
    in paths st2 b = [] \<and> raised = None \<and> paths st3 b = [Path vs])"
  by (simp add: init_def module_loaded_def onpress_def callback_def paths_def Let_def)

subsection \<open>What the rasterizer reads\<close>

text \<open>
  Of the whole store the call reads the list of the class and nothing else: neither
  the locks, nor the patches, nor the identities handed out, nor any attribute of the
  session it is given.
\<close>

lemma mask_create_lman_reads_paths_only:
  assumes "LassoManager_paths st = LassoManager_paths st'"
  shows "mask_create_lman cp xs ys st lman = mask_create_lman cp xs ys st' lman'"
  using assms by (simp add: mask_create_lman_def paths_def)


end
